theory Spec2Isabelle
  imports Complex_Main "HOL-Library.Sublist"
begin

section \<open>The search operation of the qBittorrent client (\<^verbatim>\<open>api.py\<close>)\<close>

text \<open>
  \<^verbatim>\<open>search_torrents_api\<close> logs in, starts a remote search job, polls its results at most
  \<^verbatim>\<open>SEARCH_MAX_RETRIES\<close> times, then filters the last page by size, sorts it by seeders and
  returns the first ten entries. The model below follows the source statement by statement.

  Modelling decisions:
  \<^item> The network is an input: the outcome of the login request, of the search-start request and
    of the poll request of each attempt. A request either raises (a transport error of
    \<^verbatim>\<open>httpx\<close>) or returns a response.
  \<^item> An exception is its message (\<^verbatim>\<open>str(e)\<close>). Only subclasses of \<^verbatim>\<open>Exception\<close> are modelled.
  \<^item> The function's result is the dictionary given to \<^verbatim>\<open>json.dumps\<close>, as an association list
    in the order of the source's literal; the serialisation itself is not modelled.
  \<^item> A poll body that parses is an object whose \<^verbatim>\<open>results\<close> is a list of objects whose
    \<^verbatim>\<open>fileSize\<close> and \<^verbatim>\<open>nbSeeders\<close>, when present, are integers (the schema of the remote
    service). A body outside this schema is covered only as far as \<^verbatim>\<open>response.json()\<close>
    raising.
  \<^item> Requests and delays are recorded in a trace of events, in the order the source issues
    them. The arguments \<^verbatim>\<open>category\<close>, \<^verbatim>\<open>plugins\<close>, \<^verbatim>\<open>limit\<close>, \<^verbatim>\<open>offset\<close>, \<^verbatim>\<open>host\<close>,
    \<^verbatim>\<open>username\<close> and \<^verbatim>\<open>password\<close> only travel inside the requests and do not appear.
  \<^item> A Python \<^verbatim>\<open>str\<close> is a \<^typ>\<open>string\<close>; the non-ASCII message literals of the source are
    given by their UTF-8 bytes.
\<close>

subsection \<open>Constants\<close>

definition SEARCH_MAX_RETRIES :: nat where
  "SEARCH_MAX_RETRIES = 10"

subsection \<open>Values\<close>

text \<open>A Python \<^verbatim>\<open>float\<close>: a finite value (a rational), an infinity or NaN.\<close>

datatype pyfloat = Finite rat | PosInf | NegInf | NaN

text \<open>The largest finite double.\<close>

definition DBL_MAX :: rat where
  "DBL_MAX = (2 ^ 53 - 1) * 2 ^ 971"

text \<open>
  \<^verbatim>\<open>x * 1024\<close> on a float. Scaling a double by a power of two is exact unless it overflows,
  and then the result is the infinity of the same sign.
\<close>

fun times_1024 :: "pyfloat \<Rightarrow> pyfloat" where
  "times_1024 (Finite q) =
     (if DBL_MAX < q * 1024 then PosInf
      else if q * 1024 < - DBL_MAX then NegInf
      else Finite (q * 1024))"
| "times_1024 PosInf = PosInf"
| "times_1024 NegInf = NegInf"
| "times_1024 NaN = NaN"

text \<open>\<^verbatim>\<open>i <= x\<close> for an int \<open>i\<close> and a float \<open>x\<close>: Python compares the exact values.\<close>

fun int_le_float :: "int \<Rightarrow> pyfloat \<Rightarrow> bool" where
  "int_le_float i (Finite q) = (of_int i \<le> q)"
| "int_le_float i PosInf = True"
| "int_le_float i NegInf = False"
| "int_le_float i NaN = False"

text \<open>One row of a result page. Only \<^verbatim>\<open>fileSize\<close> and \<^verbatim>\<open>nbSeeders\<close> are inspected.\<close>

record torrent =
  fileSize :: "int option"
  nbSeeders :: "int option"
  others :: "(string \<times> string) list"

datatype pyval =
    PyNone
  | PyInt int
  | PyStr string
  | PyTorrents "torrent list"
  | PyDict "(string \<times> pyval) list"

type_synonym pydict = "(string \<times> pyval) list"

text \<open>\<^verbatim>\<open>d.get(k, default)\<close>\<close>

definition dict_get :: "pydict \<Rightarrow> string \<Rightarrow> pyval \<Rightarrow> pyval" where
  "dict_get d k dflt = (case map_of d k of None \<Rightarrow> dflt | Some v \<Rightarrow> v)"

text \<open>Truth value of an object, as \<^verbatim>\<open>if not x\<close> tests it.\<close>

fun truthy :: "pyval \<Rightarrow> bool" where
  "truthy PyNone = False"
| "truthy (PyInt n) = (n \<noteq> 0)"
| "truthy (PyStr s) = (s \<noteq> [])"
| "truthy (PyTorrents ts) = (ts \<noteq> [])"
| "truthy (PyDict d) = (d \<noteq> [])"

text \<open>\<^verbatim>\<open>str(n)\<close> for an int.\<close>

fun str_nat :: "nat \<Rightarrow> string" where
  "str_nat n =
     (if n < 10 then [char_of (48 + n)]
      else str_nat (n div 10) @ [char_of (48 + n mod 10)])"

declare str_nat.simps [simp del]

definition str_int :: "int \<Rightarrow> string" where
  "str_int i = (if i < 0 then CHR ''-'' # str_nat (nat (- i)) else str_nat (nat i))"

subsection \<open>Messages\<close>

text \<open>The message literals of \<^verbatim>\<open>search_torrents_api\<close>, UTF-8 encoded, in source order.\<close>

definition msg_login_failed :: string where
  "msg_login_failed =
     [CHR 0xE7, CHR 0x99, CHR 0xBB, CHR 0xE5, CHR 0xBD, CHR 0x95, CHR 0xE5, CHR 0xA4,
      CHR 0xB1, CHR 0xE8, CHR 0xB4, CHR 0xA5, CHR 0xEF, CHR 0xBC, CHR 0x8C, CHR 0xE6,
      CHR 0x97, CHR 0xA0, CHR 0xE6, CHR 0xB3, CHR 0x95, CHR 0xE8, CHR 0x8E, CHR 0xB7,
      CHR 0xE5, CHR 0x8F, CHR 0x96, CHR 0x53, CHR 0x49, CHR 0x44]"

definition msg_start_failed :: string where
  "msg_start_failed =
     [CHR 0xE5, CHR 0x90, CHR 0xAF, CHR 0xE5, CHR 0x8A, CHR 0xA8, CHR 0xE6, CHR 0x90,
      CHR 0x9C, CHR 0xE7, CHR 0xB4, CHR 0xA2, CHR 0xE5, CHR 0xA4, CHR 0xB1, CHR 0xE8,
      CHR 0xB4, CHR 0xA5, CHR 0x3A, CHR 0x20, CHR 0xE7, CHR 0x8A, CHR 0xB6, CHR 0xE6,
      CHR 0x80, CHR 0x81, CHR 0xE7, CHR 0xA0, CHR 0x81, CHR 0x20]"

definition msg_no_search_id :: string where
  "msg_no_search_id =
     [CHR 0xE6, CHR 0x9C, CHR 0xAA, CHR 0xE8, CHR 0x83, CHR 0xBD, CHR 0xE8, CHR 0x8E,
      CHR 0xB7, CHR 0xE5, CHR 0x8F, CHR 0x96, CHR 0xE6, CHR 0x90, CHR 0x9C, CHR 0xE7,
      CHR 0xB4, CHR 0xA2, CHR 0x49, CHR 0x44]"

definition msg_poll_failed :: string where
  "msg_poll_failed =
     [CHR 0xE8, CHR 0x8E, CHR 0xB7, CHR 0xE5, CHR 0x8F, CHR 0x96, CHR 0xE6, CHR 0x90,
      CHR 0x9C, CHR 0xE7, CHR 0xB4, CHR 0xA2, CHR 0xE7, CHR 0xBB, CHR 0x93, CHR 0xE6,
      CHR 0x9E, CHR 0x9C, CHR 0xE5, CHR 0xA4, CHR 0xB1, CHR 0xE8, CHR 0xB4, CHR 0xA5,
      CHR 0x3A, CHR 0x20, CHR 0xE7, CHR 0x8A, CHR 0xB6, CHR 0xE6, CHR 0x80, CHR 0x81,
      CHR 0xE7, CHR 0xA0, CHR 0x81, CHR 0x20]"

definition msg_timeout :: string where
  "msg_timeout =
     [CHR 0xE6, CHR 0x90, CHR 0x9C, CHR 0xE7, CHR 0xB4, CHR 0xA2, CHR 0xE8, CHR 0xB6,
      CHR 0x85, CHR 0xE6, CHR 0x97, CHR 0xB6, CHR 0xEF, CHR 0xBC, CHR 0x8C, CHR 0xE6,
      CHR 0x9C, CHR 0xAA, CHR 0xE8, CHR 0x83, CHR 0xBD, CHR 0xE8, CHR 0x8E, CHR 0xB7,
      CHR 0xE5, CHR 0x8F, CHR 0x96, CHR 0xE5, CHR 0x88, CHR 0xB0, CHR 0xE7, CHR 0xBB,
      CHR 0x93, CHR 0xE6, CHR 0x9E, CHR 0x9C]"

definition msg_exception :: string where
  "msg_exception = [CHR 0xE9, CHR 0x94, CHR 0x99, CHR 0xE8, CHR 0xAF, CHR 0xAF, CHR 0x3A, CHR 0x20]"

subsection \<open>The network\<close>

text \<open>
  The outcome of \<^verbatim>\<open>client.post\<close>: an exception, or a response with its \<^verbatim>\<open>status_code\<close>, its
  \<^verbatim>\<open>text\<close> and what \<^verbatim>\<open>response.json()\<close> gives (\<open>Inl\<close>: it raises).
\<close>

datatype 'a http = Post_raises string | Post_response int string "string + 'a"

text \<open>The login response carries cookies instead of a body.\<close>

datatype login_outcome = Login_raises string | Login_response int "(string \<times> string) list"

text \<open>The body of a poll response: \<^verbatim>\<open>results.get('status')\<close> and \<^verbatim>\<open>results.get('results', [])\<close>.\<close>

record poll_body =
  status :: pyval
  results :: "torrent list"

record network =
  login_post :: login_outcome
  start_post :: "pydict http"
  results_post :: "nat \<Rightarrow> poll_body http"

text \<open>
  What a run does, in order: the three kinds of request (a poll request with its attempt
  number) and \<^verbatim>\<open>asyncio.sleep(SEARCH_RETRY_DELAY_SECONDS)\<close>.
\<close>

datatype event = Login_request | Start_request | Results_request nat | Sleep

subsection \<open>\<^verbatim>\<open>login_to_qbittorrent\<close>\<close>

text \<open>Returns the cookies on status 200 and \<^verbatim>\<open>None\<close> otherwise; it has no exception handler.\<close>

definition login_to_qbittorrent :: "login_outcome \<Rightarrow> string + (string \<times> string) list option" where
  "login_to_qbittorrent outcome =
     (case outcome of
        Login_raises e \<Rightarrow> Inl e
      | Login_response status_code cookies \<Rightarrow>
          if status_code = 200 then Inr (Some cookies) else Inr None)"

text \<open>\<^verbatim>\<open>if not cookies\<close>: \<^verbatim>\<open>None\<close> and an empty cookie jar are both false.\<close>

fun truthy_cookies :: "(string \<times> string) list option \<Rightarrow> bool" where
  "truthy_cookies None = False"
| "truthy_cookies (Some jar) = (jar \<noteq> [])"

subsection \<open>Steps 3 to 5: filter, sort, truncate\<close>

text \<open>\<^verbatim>\<open>torrent.get(key, 0)\<close> on a row, given the field \<open>key\<close> of the row.\<close>

definition field_get :: "int option \<Rightarrow> int \<Rightarrow> int" where
  "field_get field dflt = (case field of None \<Rightarrow> dflt | Some n \<Rightarrow> n)"

definition filtered_torrents :: "torrent list \<Rightarrow> pyfloat \<Rightarrow> torrent list" where
  "filtered_torrents torrents size_limit =
     filter (\<lambda>torrent. int_le_float (field_get (fileSize torrent) 0) size_limit) torrents"

text \<open>
  \<^verbatim>\<open>sorted(xs, key=..., reverse=True)\<close>: a stable sort with the comparisons reversed, so
  entries with equal keys keep their order.
\<close>

definition sorted_torrents :: "torrent list \<Rightarrow> torrent list" where
  "sorted_torrents filtered =
     sort_key (\<lambda>x. - field_get (nbSeeders x) 0) filtered"

definition top_10 :: "torrent list \<Rightarrow> torrent list" where
  "top_10 sorted_ts = take 10 sorted_ts"

definition max_size_bytes :: "pyfloat \<Rightarrow> pyfloat" where
  "max_size_bytes max_size_gb = times_1024 (times_1024 (times_1024 max_size_gb))"

text \<open>The dictionary of the final \<^verbatim>\<open>return\<close>.\<close>

definition shape :: "pyval \<Rightarrow> string \<Rightarrow> torrent list \<Rightarrow> pyfloat \<Rightarrow> pydict" where
  "shape search_id pattern torrents size_limit =
     [(''search_id'', search_id),
      (''pattern'', PyStr pattern),
      (''total_results'', PyInt (int (length torrents))),
      (''filtered_results'', PyInt (int (length (filtered_torrents torrents size_limit)))),
      (''results'', PyTorrents (top_10 (sorted_torrents (filtered_torrents torrents size_limit))))]"

subsection \<open>Step 2: the polling loop\<close>

text \<open>
  How the \<^verbatim>\<open>for\<close> loop is left: by \<^verbatim>\<open>return\<close>, by an exception, or past its end
  (\<open>Break\<close>: through a \<^verbatim>\<open>break\<close>; \<open>Exhausted\<close>: \<^verbatim>\<open>range\<close> ran out) with the last
  \<^verbatim>\<open>torrents\<close> and \<^verbatim>\<open>status\<close>. The code after the loop does not see the difference
  between the last two.
\<close>

datatype loop_exit = Break | Exhausted

datatype loop_result =
    Loop_return pydict "event list"
  | Loop_raise string "event list"
  | Loop_end loop_exit "torrent list" pyval "event list"

text \<open>
  \<^verbatim>\<open>for attempt in range(SEARCH_MAX_RETRIES)\<close>, over the attempts still to run; \<open>tr\<close> is the
  trace so far.
\<close>

fun poll_loop ::
  "(nat \<Rightarrow> poll_body http) \<Rightarrow> nat list \<Rightarrow> torrent list \<Rightarrow> pyval \<Rightarrow> event list \<Rightarrow> loop_result"
where
  "poll_loop post [] torrents status' tr = Loop_end Exhausted torrents status' tr"
| "poll_loop post (attempt # rest) torrents status' tr =
     (case post attempt of
        Post_raises e \<Rightarrow> Loop_raise e (tr @ [Results_request attempt])
      | Post_response status_code txt body \<Rightarrow>
          if status_code \<noteq> 200 then
            Loop_return
              [(''error'', PyStr (msg_poll_failed @ str_int status_code)),
               (''response'', PyStr txt)]
              (tr @ [Results_request attempt])
          else
            (case body of
               Inl e \<Rightarrow> Loop_raise e (tr @ [Results_request attempt])
             | Inr page \<Rightarrow>
                 if status page = PyStr ''Stopped'' then
                   Loop_end Break (results page) (status page) (tr @ [Results_request attempt])
                 else if results page \<noteq> [] \<and> attempt \<ge> 2 then
                   Loop_end Break (results page) (status page) (tr @ [Results_request attempt])
                 else if attempt < SEARCH_MAX_RETRIES - 1 then
                   poll_loop post rest (results page) (status page)
                     (tr @ [Results_request attempt, Sleep])
                 else
                   poll_loop post rest (results page) (status page)
                     (tr @ [Results_request attempt])))"

subsection \<open>\<^verbatim>\<open>search_torrents_api\<close>\<close>

text \<open>The body of the \<^verbatim>\<open>try\<close> block; \<open>Inl\<close> is an exception raised inside it.\<close>

definition search_try :: "string \<Rightarrow> pyfloat \<Rightarrow> network \<Rightarrow> (string + pydict) \<times> event list" where
  "search_try pattern max_size_gb net =
     (case start_post net of
        Post_raises e \<Rightarrow> (Inl e, [Start_request])
      | Post_response status_code txt body \<Rightarrow>
          if status_code \<noteq> 200 then
            (Inr [(''error'', PyStr (msg_start_failed @ str_int status_code)),
                  (''response'', PyStr txt)],
             [Start_request])
          else
            (case body of
               Inl e \<Rightarrow> (Inl e, [Start_request])
             | Inr search_result \<Rightarrow>
                 let search_id = dict_get search_result ''id'' PyNone in
                 if \<not> truthy search_id then
                   (Inr [(''error'', PyStr msg_no_search_id),
                         (''response'', PyDict search_result)],
                    [Start_request])
                 else
                   (case poll_loop (results_post net) [0..<SEARCH_MAX_RETRIES] [] PyNone
                           [Start_request] of
                      Loop_return reply tr \<Rightarrow> (Inr reply, tr)
                    | Loop_raise e tr \<Rightarrow> (Inl e, tr)
                    | Loop_end how torrents status' tr \<Rightarrow>
                        if torrents = [] \<and> status' \<noteq> PyStr ''Stopped'' then
                          (Inr [(''error'', PyStr msg_timeout),
                                (''search_id'', search_id),
                                (''status'', status')],
                           tr)
                        else
                          (Inr (shape search_id pattern torrents (max_size_bytes max_size_gb)),
                           tr))))"

text \<open>
  What a call does: it returns a dictionary, or an exception leaves the function.
\<close>

datatype 'a result = Propagates string | Returned 'a

text \<open>
  The login call stands before the \<^verbatim>\<open>try\<close>; the handler \<^verbatim>\<open>except Exception as e\<close> turns
  an exception of the block into an error dictionary.
\<close>

definition search_torrents_api ::
  "string \<Rightarrow> pyfloat \<Rightarrow> network \<Rightarrow> pydict result \<times> event list"
where
  "search_torrents_api pattern max_size_gb net =
     (case login_to_qbittorrent (login_post net) of
        Inl e \<Rightarrow> (Propagates e, [Login_request])
      | Inr cookies \<Rightarrow>
          if \<not> truthy_cookies cookies then
            (Returned [(''error'', PyStr msg_login_failed)], [Login_request])
          else
            (case search_try pattern max_size_gb net of
               (Inr reply, tr) \<Rightarrow> (Returned reply, Login_request # tr)
             | (Inl e, tr) \<Rightarrow>
                 (Returned [(''error'', PyStr (msg_exception @ e))], Login_request # tr)))"

subsection \<open>Observations on a run\<close>

text \<open>The trace a loop result carries.\<close>

fun loop_trace :: "loop_result \<Rightarrow> event list" where
  "loop_trace (Loop_return reply tr) = tr"
| "loop_trace (Loop_raise e tr) = tr"
| "loop_trace (Loop_end how torrents status' tr) = tr"

text \<open>
  The poll requests of the given attempts with one delay between each two consecutive
  requests and none after the last.
\<close>

fun poll_trace :: "nat list \<Rightarrow> event list" where
  "poll_trace [] = []"
| "poll_trace [a] = [Results_request a]"
| "poll_trace (a # b # rest) = Results_request a # Sleep # poll_trace (b # rest)"

fun is_request :: "event \<Rightarrow> bool" where
  "is_request Sleep = False"
| "is_request e = True"

fun is_poll :: "event \<Rightarrow> bool" where
  "is_poll (Results_request a) = True"
| "is_poll e = False"

subsection \<open>Example networks\<close>

text \<open>A server that accepts the login and starts the search as job 7.\<close>

definition server :: "(nat \<Rightarrow> poll_body http) \<Rightarrow> network" where
  "server poller =
     \<lparr>login_post = Login_response 200 [(''SID'', ''abc'')],
      start_post = Post_response 200 ''id 7'' (Inr [(''id'', PyInt 7)]),
      results_post = poller\<rparr>"

definition row :: "int \<Rightarrow> int \<Rightarrow> string \<Rightarrow> torrent" where
  "row size_bytes seeders name =
     \<lparr>fileSize = Some size_bytes, nbSeeders = Some seeders, others = [(''fileName'', name)]\<rparr>"

definition GiB :: int where
  "GiB = 1073741824"

text \<open>Every poll: still running, one row.\<close>

definition net_running_rows :: network where
  "net_running_rows =
     server (\<lambda>a. Post_response 200 ''page''
       (Inr \<lparr>status = PyStr ''Running'', results = [row GiB (int a) ''a'']\<rparr>))"

text \<open>Every poll: still running, no row.\<close>

definition net_running_empty :: network where
  "net_running_empty =
     server (\<lambda>a. Post_response 200 ''page'' (Inr \<lparr>status = PyStr ''Running'', results = []\<rparr>))"

text \<open>The first poll: stopped, no row.\<close>

definition net_stopped_empty :: network where
  "net_stopped_empty =
     server (\<lambda>a. Post_response 200 ''page'' (Inr \<lparr>status = PyStr ''Stopped'', results = []\<rparr>))"

text \<open>The first poll: stopped, with three rows of 1, 10 and 2 GiB and 5, 50 and 1 seeders.\<close>

definition net_stopped_rows :: network where
  "net_stopped_rows =
     server (\<lambda>a. Post_response 200 ''page''
       (Inr \<lparr>status = PyStr ''Stopped'',
             results = [row GiB 5 ''a'', row (10 * GiB) 50 ''b'', row (2 * GiB) 1 ''c'']\<rparr>))"

text \<open>The second poll answers 500.\<close>

definition net_poll_500 :: network where
  "net_poll_500 =
     server (\<lambda>a. if a = 1 then Post_response 500 ''Internal Server Error'' (Inl ''no JSON'')
                  else Post_response 200 ''page''
                         (Inr \<lparr>status = PyStr ''Running'', results = []\<rparr>))"

text \<open>The server cannot be reached: the login request raises.\<close>

definition net_unreachable :: network where
  "net_unreachable =
     \<lparr>login_post = Login_raises ''All connection attempts failed'',
      start_post = Post_raises ''All connection attempts failed'',
      results_post = (\<lambda>a. Post_raises ''All connection attempts failed'')\<rparr>"

text \<open>A row without \<^verbatim>\<open>fileSize\<close>.\<close>

definition row_without_size :: torrent where
  "row_without_size = \<lparr>fileSize = None, nbSeeders = Some 3, others = []\<rparr>"

subsection \<open>The envelope invariant\<close>

text \<open>
  The invariant of the result envelope, in the words of the specification: the filtered
  count is at most the total count, the results array is no longer than the smaller of the
  filtered count and ten, and it is sorted non-increasing by \<^verbatim>\<open>nbSeeders\<close> (absent: 0).
\<close>

definition envelope_invariant :: "pydict \<Rightarrow> bool" where
  "envelope_invariant reply =
     (case (map_of reply ''total_results'', map_of reply ''filtered_results'',
            map_of reply ''results'') of
        (Some (PyInt n_total), Some (PyInt n_filtered), Some (PyTorrents shown)) \<Rightarrow>
          n_filtered \<le> n_total \<and> int (length shown) \<le> min n_filtered 10 \<and>
          sorted_wrt (\<lambda>x y. field_get (nbSeeders y) 0 \<le> field_get (nbSeeders x) 0) shown
      | _ \<Rightarrow> False)"

section \<open>Properties of filtering, sorting and truncation\<close>

lemma sorted_torrents_desc:
  "sorted_wrt (\<lambda>x y. field_get (nbSeeders y) 0 \<le> field_get (nbSeeders x) 0) (sorted_torrents xs)"
proof -
  have "sorted (map (\<lambda>x. - field_get (nbSeeders x) 0) (sorted_torrents xs))"
    unfolding sorted_torrents_def by (rule sorted_sort_key)
  then show ?thesis by (simp add: sorted_map)
qed

lemma sorted_torrents_stable:
  "filter (\<lambda>x. field_get (nbSeeders x) 0 = k) (sorted_torrents xs) =
   filter (\<lambda>x. field_get (nbSeeders x) 0 = k) xs"
proof -
  have "filter (\<lambda>x. - field_get (nbSeeders x) 0 = - k) (sorted_torrents xs) =
        filter (\<lambda>x. - field_get (nbSeeders x) 0 = - k) xs"
    unfolding sorted_torrents_def by (rule sort_key_stable)
  then show ?thesis by simp
qed

lemma top_10_desc:
  "sorted_wrt (\<lambda>x y. field_get (nbSeeders y) 0 \<le> field_get (nbSeeders x) 0)
     (top_10 (sorted_torrents xs))"
  unfolding top_10_def by (rule sorted_wrt_take) (rule sorted_torrents_desc)

lemma top_10_stable:
  "prefix (filter (\<lambda>x. field_get (nbSeeders x) 0 = k) (top_10 (sorted_torrents xs)))
     (filter (\<lambda>x. field_get (nbSeeders x) 0 = k) xs)"
proof -
  have "prefix (top_10 (sorted_torrents xs)) (sorted_torrents xs)"
    unfolding top_10_def by (rule take_is_prefix)
  then have "prefix (filter (\<lambda>x. field_get (nbSeeders x) 0 = k) (top_10 (sorted_torrents xs)))
     (filter (\<lambda>x. field_get (nbSeeders x) 0 = k) (sorted_torrents xs))"
    by (rule filter_mono_prefix)
  then show ?thesis by (simp only: sorted_torrents_stable)
qed

lemma length_top_10: "length (top_10 (sorted_torrents xs)) = min (length xs) 10"
  by (simp add: top_10_def sorted_torrents_def)

lemma shape_invariant: "envelope_invariant (shape search_id pattern R S)"
  by (simp add: envelope_invariant_def shape_def top_10_desc length_top_10 filtered_torrents_def)

section \<open>Properties of the polling loop\<close>

lemma attempts_list: "[0..<SEARCH_MAX_RETRIES] = [0, 1, 2, 3, 4, 5, 6, 7, 8, 9]"
  by (simp add: SEARCH_MAX_RETRIES_def upt_conv_Cons)

lemma timeout_message_distinct: "msg_timeout \<noteq> msg_poll_failed @ str_int code"
  by (simp add: msg_timeout_def msg_poll_failed_def)

text \<open>A loop that runs past its last attempt holds no rows, when that attempt is the third or later.\<close>

lemma exhausted_empty:
  "poll_loop post atts torrents st tr = Loop_end Exhausted torrents' st' tr' \<Longrightarrow>
   atts \<noteq> [] \<Longrightarrow> 2 \<le> last atts \<Longrightarrow> torrents' = []"
proof (induction atts arbitrary: torrents st tr)
  case Nil
  then show ?case by simp
next
  case (Cons a rest)
  show ?case
  proof (cases rest)
    case Nil
    with Cons.prems show ?thesis
      by (auto split: http.splits sum.splits if_splits)
  next
    case (Cons b rest')
    with Cons.prems Cons.IH show ?thesis
      by (auto split: http.splits sum.splits if_splits)
  qed
qed

text \<open>A \<^verbatim>\<open>return\<close> inside the loop returns an error dictionary.\<close>

lemma loop_return_error:
  "poll_loop post atts torrents st tr = Loop_return reply tr' \<Longrightarrow> map_of reply ''error'' \<noteq> None"
  by (induction atts arbitrary: torrents st tr) (auto split: http.splits sum.splits if_splits)

lemma search_try_reply:
  assumes "search_try pattern max_size_gb net = (Inr reply, tr)" and "map_of reply ''error'' = None"
  shows "\<exists>search_id torrents. reply = shape search_id pattern torrents (max_size_bytes max_size_gb)"
  using assms
  by (auto simp: search_try_def Let_def dest!: loop_return_error
      split: http.splits sum.splits if_splits loop_result.splits)

text \<open>Only an exception of the login request leaves the function.\<close>

lemma only_login_propagates:
  "fst (search_torrents_api pattern max_size_gb net) = Propagates e \<longleftrightarrow>
   login_post net = Login_raises e"
  by (auto simp: search_torrents_api_def login_to_qbittorrent_def
      split: sum.splits prod.splits login_outcome.splits if_splits)

text \<open>The shape of the trace: the requests of a run and the delays between them.\<close>

lemma poll_trace_counts:
  "length (filter is_poll (poll_trace xs)) = length xs"
  "length (filter is_request (poll_trace xs)) = length xs"
  "filter (\<lambda>e. e = Login_request) (poll_trace xs) = []"
  "filter (\<lambda>e. e = Start_request) (poll_trace xs) = []"
  by (induction xs rule: poll_trace.induct) simp_all

lemma poll_loop_step:
  "loop_trace (poll_loop post (a # rest) torrents st tr) = tr @ [Results_request a] \<or>
   (\<exists>torrents' st'. poll_loop post (a # rest) torrents st tr =
      poll_loop post rest torrents' st'
        (tr @ (if a < SEARCH_MAX_RETRIES - 1 then [Results_request a, Sleep]
               else [Results_request a])))"
  by (auto split: http.splits sum.splits)

lemma poll_loop_trace:
  "k < SEARCH_MAX_RETRIES \<Longrightarrow>
   \<exists>n. k < n \<and> n \<le> SEARCH_MAX_RETRIES \<and>
       loop_trace (poll_loop post [k..<SEARCH_MAX_RETRIES] torrents st tr) = tr @ poll_trace [k..<n]"
proof (induction "SEARCH_MAX_RETRIES - k" arbitrary: k torrents st tr)
  case 0
  then show ?case by simp
next
  case (Suc d)
  have upt: "[k..<SEARCH_MAX_RETRIES] = k # [Suc k..<SEARCH_MAX_RETRIES]"
    using Suc.prems by (simp add: upt_conv_Cons)
  have one: "tr @ [Results_request k] = tr @ poll_trace [k..<Suc k]" by simp
  consider
    (stop) "loop_trace (poll_loop post [k..<SEARCH_MAX_RETRIES] torrents st tr) =
              tr @ [Results_request k]"
  | (continue) torrents' st' where
      "poll_loop post [k..<SEARCH_MAX_RETRIES] torrents st tr =
         poll_loop post [Suc k..<SEARCH_MAX_RETRIES] torrents' st'
           (tr @ (if k < SEARCH_MAX_RETRIES - 1 then [Results_request k, Sleep]
                  else [Results_request k]))"
    unfolding upt using poll_loop_step[of post k "[Suc k..<SEARCH_MAX_RETRIES]" torrents st tr]
    by blast
  then show ?case
  proof cases
    case stop
    with one Suc.prems show ?thesis by (intro exI[of _ "Suc k"]) simp
  next
    case continue
    show ?thesis
    proof (cases "Suc k < SEARCH_MAX_RETRIES")
      case True
      have d: "d = SEARCH_MAX_RETRIES - Suc k" using Suc.hyps(2) by simp
      from Suc.hyps(1)[OF d True, of torrents' st' "tr @ [Results_request k, Sleep]"]
      obtain n where n: "Suc k < n" "n \<le> SEARCH_MAX_RETRIES"
        "loop_trace (poll_loop post [Suc k..<SEARCH_MAX_RETRIES] torrents' st'
           (tr @ [Results_request k, Sleep])) =
         (tr @ [Results_request k, Sleep]) @ poll_trace [Suc k..<n]"
        by blast
      have "[k..<n] = k # Suc k # [Suc (Suc k)..<n]" "[Suc k..<n] = Suc k # [Suc (Suc k)..<n]"
        using n(1) by (simp_all add: upt_conv_Cons)
      then have "poll_trace [k..<n] = Results_request k # Sleep # poll_trace [Suc k..<n]"
        by simp
      with n continue True show ?thesis
        by (intro exI[of _ n]) simp
    next
      case False
      then have "[Suc k..<SEARCH_MAX_RETRIES] = []" "\<not> k < SEARCH_MAX_RETRIES - 1" by simp_all
      with continue one Suc.prems show ?thesis
        by (intro exI[of _ "Suc k"]) simp
    qed
  qed
qed

lemma search_try_trace:
  "snd (search_try pattern max_size_gb net) = [Start_request] \<or>
   snd (search_try pattern max_size_gb net) =
     loop_trace (poll_loop (results_post net) [0..<SEARCH_MAX_RETRIES] [] PyNone [Start_request])"
  by (auto simp: search_try_def Let_def split: http.splits sum.splits loop_result.splits)

lemma api_trace:
  "snd (search_torrents_api pattern max_size_gb net) = [Login_request] \<or>
   snd (search_torrents_api pattern max_size_gb net) =
     Login_request # snd (search_try pattern max_size_gb net)"
  by (auto simp: search_torrents_api_def split: sum.splits prod.splits)

lemma api_trace_shape:
  "\<exists>n\<le>SEARCH_MAX_RETRIES.
     snd (search_torrents_api pattern max_size_gb net) = [Login_request] \<or>
     snd (search_torrents_api pattern max_size_gb net) =
       Login_request # Start_request # poll_trace [0..<n]"
proof -
  have pos: "0 < SEARCH_MAX_RETRIES" by (simp add: SEARCH_MAX_RETRIES_def)
  from poll_loop_trace[OF pos, of "results_post net" "[]" PyNone "[Start_request]"]
  obtain n where n: "n \<le> SEARCH_MAX_RETRIES"
    "loop_trace (poll_loop (results_post net) [0..<SEARCH_MAX_RETRIES] [] PyNone [Start_request]) =
       Start_request # poll_trace [0..<n]"
    by auto
  consider "snd (search_torrents_api pattern max_size_gb net) = [Login_request]"
    | "snd (search_torrents_api pattern max_size_gb net) = [Login_request, Start_request]"
    | "snd (search_torrents_api pattern max_size_gb net) =
         Login_request # Start_request # poll_trace [0..<n]"
    using api_trace[of pattern max_size_gb net] search_try_trace[of pattern max_size_gb net] n(2)
    by auto
  then show ?thesis
  proof cases
    case 1
    then show ?thesis by blast
  next
    case 2
    then show ?thesis by (intro exI[of _ 0]) simp
  next
    case 3
    with n(1) show ?thesis by blast
  qed
qed

text \<open>A poll request answered with a status other than 200 ends the loop at once.\<close>

lemma poll_failure_loop:
  "Results_request a \<in> set (loop_trace (poll_loop post atts torrents st tr)) \<Longrightarrow>
   Results_request a \<notin> set tr \<Longrightarrow> post a = Post_response code txt body \<Longrightarrow> code \<noteq> 200 \<Longrightarrow>
   \<exists>tr'. poll_loop post atts torrents st tr =
     Loop_return [(''error'', PyStr (msg_poll_failed @ str_int code)), (''response'', PyStr txt)]
       (tr' @ [Results_request a])"
proof (induction atts arbitrary: torrents st tr)
  case Nil
  then show ?case by simp
next
  case (Cons b rest)
  show ?case
  proof (cases "b = a")
    case True
    with Cons.prems show ?thesis by simp
  next
    case False
    with Cons.prems Cons.IH show ?thesis
      by (auto split: http.splits sum.splits if_splits)
  qed
qed

text \<open>The size limit for 5 GB and for -1 GB.\<close>

lemma five_gib: "max_size_bytes (Finite 5) = Finite 5368709120"
  by (simp add: max_size_bytes_def DBL_MAX_def)

lemma minus_one_gib: "max_size_bytes (Finite (- 1)) = Finite (- 1073741824)"
  by (simp add: max_size_bytes_def DBL_MAX_def)

text \<open>Two runs used below, evaluated.\<close>

lemma stopped_rows_run:
  "search_torrents_api ''ubuntu'' (Finite 5) net_stopped_rows =
     (Returned [(''search_id'', PyInt 7), (''pattern'', PyStr ''ubuntu''),
                (''total_results'', PyInt 3), (''filtered_results'', PyInt 2),
                (''results'', PyTorrents [row GiB 5 ''a'', row (2 * GiB) 1 ''c''])],
      [Login_request, Start_request, Results_request 0])"
  by (simp add: search_torrents_api_def search_try_def login_to_qbittorrent_def
      net_stopped_rows_def server_def dict_get_def attempts_list five_gib shape_def
      filtered_torrents_def sorted_torrents_def top_10_def row_def GiB_def field_get_def)

lemma poll_500_run:
  "search_torrents_api ''ubuntu'' (Finite 5) net_poll_500 =
     (Returned [(''error'', PyStr (msg_poll_failed @ ''500'')),
                (''response'', PyStr ''Internal Server Error'')],
      [Login_request, Start_request, Results_request 0, Sleep, Results_request 1])"
proof -
  have "str_int 500 = ''500''" by code_simp
  then show ?thesis
    by (simp add: search_torrents_api_def search_try_def login_to_qbittorrent_def
        net_poll_500_def server_def dict_get_def attempts_list[unfolded SEARCH_MAX_RETRIES_def]
        SEARCH_MAX_RETRIES_def)
qed

section \<open>The claims\<close>

text \<open>
  C1 (early acceptance). When the login and the search start succeed and every poll attempt
  answers 200 with a non-empty \<^verbatim>\<open>results\<close> list and a status other than \<^verbatim>\<open>Stopped\<close>, the loop
  is left at attempt 2, after the third poll request, and the envelope returned is built
  from the rows of exactly that attempt.
\<close>

theorem early_acceptance:
  assumes "login_post net = Login_response 200 jar" and "jar \<noteq> []"
    and "start_post net = Post_response 200 stxt (Inr search_result)"
    and "truthy (dict_get search_result ''id'' PyNone)"
    and "\<forall>a<SEARCH_MAX_RETRIES.
           results_post net a = Post_response 200 (txt a) (Inr (page a)) \<and>
           results (page a) \<noteq> [] \<and> status (page a) \<noteq> PyStr ''Stopped''"
  shows "search_torrents_api pattern max_size_gb net =
           (Returned (shape (dict_get search_result ''id'' PyNone) pattern (results (page 2))
                        (max_size_bytes max_size_gb)),
            [Login_request, Start_request, Results_request 0, Sleep, Results_request 1, Sleep,
             Results_request 2])"
proof -
  have p: "results_post net a = Post_response 200 (txt a) (Inr (page a))"
    "results (page a) \<noteq> []" "status (page a) \<noteq> PyStr ''Stopped''" if "a < 10" for a
    using assms(5) that by (simp_all add: SEARCH_MAX_RETRIES_def)
  have "poll_loop (results_post net) [0..<SEARCH_MAX_RETRIES] [] PyNone [Start_request] =
          Loop_end Break (results (page 2)) (status (page 2))
            [Start_request, Results_request 0, Sleep, Results_request 1, Sleep,
             Results_request 2]"
    unfolding attempts_list by (simp add: p SEARCH_MAX_RETRIES_def)
  then show ?thesis
    using assms(1-4) p[of 2]
    by (simp add: search_torrents_api_def search_try_def login_to_qbittorrent_def)
qed

theorem early_acceptance_witness:
  "search_torrents_api ''ubuntu'' (Finite 5) net_running_rows =
     (Returned [(''search_id'', PyInt 7), (''pattern'', PyStr ''ubuntu''),
                (''total_results'', PyInt 1), (''filtered_results'', PyInt 1),
                (''results'', PyTorrents [row GiB 2 ''a''])],
      [Login_request, Start_request, Results_request 0, Sleep, Results_request 1, Sleep,
       Results_request 2])"
proof -
  let ?page = "\<lambda>a. \<lparr>status = PyStr ''Running'', results = [row GiB (int a) ''a'']\<rparr>"
  have h1: "login_post net_running_rows = Login_response 200 [(''SID'', ''abc'')]"
    and h2: "[(''SID'', ''abc'')] \<noteq> []"
    and h3: "start_post net_running_rows = Post_response 200 ''id 7'' (Inr [(''id'', PyInt 7)])"
    and h4: "truthy (dict_get [(''id'', PyInt 7)] ''id'' PyNone)"
    and h5: "\<forall>a<SEARCH_MAX_RETRIES.
           results_post net_running_rows a = Post_response 200 ((\<lambda>a. ''page'') a) (Inr (?page a)) \<and>
           results (?page a) \<noteq> [] \<and> status (?page a) \<noteq> PyStr ''Stopped''"
    by (simp_all add: net_running_rows_def server_def dict_get_def)
  show ?thesis
    using early_acceptance[OF h1 h2 h3 h4 h5, of "''ubuntu''" "Finite 5"]
    by (simp add: five_gib shape_def dict_get_def filtered_torrents_def sorted_torrents_def
        top_10_def row_def GiB_def field_get_def)
qed

text \<open>
  C2 (poll timeout). When the login and the search start succeed and every poll attempt
  answers 200 with an empty \<^verbatim>\<open>results\<close> list and a status other than \<^verbatim>\<open>Stopped\<close>, the run
  issues exactly \<^verbatim>\<open>SEARCH_MAX_RETRIES\<close> = 10 poll requests and returns the timeout dictionary
  with the job identifier and the status seen last; its message differs from the message of
  a failed poll request, whatever the status code.
\<close>

theorem poll_timeout:
  assumes "login_post net = Login_response 200 jar" and "jar \<noteq> []"
    and "start_post net = Post_response 200 stxt (Inr search_result)"
    and "truthy (dict_get search_result ''id'' PyNone)"
    and "\<forall>a<SEARCH_MAX_RETRIES.
           results_post net a = Post_response 200 (txt a) (Inr (page a)) \<and>
           results (page a) = [] \<and> status (page a) \<noteq> PyStr ''Stopped''"
  shows "search_torrents_api pattern max_size_gb net =
           (Returned [(''error'', PyStr msg_timeout),
                      (''search_id'', dict_get search_result ''id'' PyNone),
                      (''status'', status (page (SEARCH_MAX_RETRIES - 1)))],
            Login_request # Start_request # poll_trace [0..<SEARCH_MAX_RETRIES]) \<and>
         length (filter is_poll (snd (search_torrents_api pattern max_size_gb net))) =
           SEARCH_MAX_RETRIES \<and>
         (\<forall>code. msg_timeout \<noteq> msg_poll_failed @ str_int code)"
proof -
  have p: "results_post net a = Post_response 200 (txt a) (Inr (page a))"
    "results (page a) = []" "status (page a) \<noteq> PyStr ''Stopped''" if "a < 10" for a
    using assms(5) that by (simp_all add: SEARCH_MAX_RETRIES_def)
  have loop: "poll_loop (results_post net) [0..<SEARCH_MAX_RETRIES] [] PyNone [Start_request] =
          Loop_end Exhausted [] (status (page 9))
            (Start_request # poll_trace [0..<SEARCH_MAX_RETRIES])"
    unfolding attempts_list by (simp add: p SEARCH_MAX_RETRIES_def)
  have nine: "SEARCH_MAX_RETRIES - Suc 0 = 9" by (simp add: SEARCH_MAX_RETRIES_def)
  have run: "search_torrents_api pattern max_size_gb net =
           (Returned [(''error'', PyStr msg_timeout),
                      (''search_id'', dict_get search_result ''id'' PyNone),
                      (''status'', status (page (SEARCH_MAX_RETRIES - 1)))],
            Login_request # Start_request # poll_trace [0..<SEARCH_MAX_RETRIES])"
    using assms(1-4) p(3)[of 9]
    by (simp add: search_torrents_api_def search_try_def login_to_qbittorrent_def loop nine)
  have "length (filter is_poll (poll_trace [0..<SEARCH_MAX_RETRIES])) = SEARCH_MAX_RETRIES"
    by (simp add: poll_trace_counts)
  with run timeout_message_distinct show ?thesis by simp
qed

theorem poll_timeout_witness:
  "search_torrents_api ''ubuntu'' (Finite 5) net_running_empty =
     (Returned [(''error'', PyStr msg_timeout), (''search_id'', PyInt 7),
                (''status'', PyStr ''Running'')],
      [Login_request, Start_request,
       Results_request 0, Sleep, Results_request 1, Sleep, Results_request 2, Sleep,
       Results_request 3, Sleep, Results_request 4, Sleep, Results_request 5, Sleep,
       Results_request 6, Sleep, Results_request 7, Sleep, Results_request 8, Sleep,
       Results_request 9]) \<and>
   length (filter is_poll (snd (search_torrents_api ''ubuntu'' (Finite 5) net_running_empty))) = 10 \<and>
   msg_timeout \<noteq> msg_poll_failed @ str_int 500"
proof -
  let ?page = "\<lambda>a::nat. \<lparr>status = PyStr ''Running'', results = []\<rparr>"
  have h1: "login_post net_running_empty = Login_response 200 [(''SID'', ''abc'')]"
    and h2: "[(''SID'', ''abc'')] \<noteq> []"
    and h3: "start_post net_running_empty = Post_response 200 ''id 7'' (Inr [(''id'', PyInt 7)])"
    and h4: "truthy (dict_get [(''id'', PyInt 7)] ''id'' PyNone)"
    and h5: "\<forall>a<SEARCH_MAX_RETRIES.
           results_post net_running_empty a =
             Post_response 200 ((\<lambda>a. ''page'') a) (Inr (?page a)) \<and>
           results (?page a) = [] \<and> status (?page a) \<noteq> PyStr ''Stopped''"
    by (simp_all add: net_running_empty_def server_def dict_get_def)
  show ?thesis
    using poll_timeout[OF h1 h2 h3 h4 h5, of "''ubuntu''" "Finite 5"]
    by (simp add: attempts_list[unfolded SEARCH_MAX_RETRIES_def] dict_get_def
        SEARCH_MAX_RETRIES_def)
qed

text \<open>
  C3 (filter correctness), as amended. For every result list \<open>R\<close> and size limit \<open>S\<close>,
  \<^verbatim>\<open>filtered_results\<close> is the number of positions of \<open>R\<close> whose \<^verbatim>\<open>fileSize\<close> is at most \<open>S\<close>,
  an absent \<^verbatim>\<open>fileSize\<close> counting as 0; a row without \<^verbatim>\<open>fileSize\<close> therefore passes the
  filter exactly when \<open>0 \<le> S\<close>. It does not pass for every limit: under a negative limit it
  is dropped, as the counterexample shows for \<^verbatim>\<open>max_size_gb = -1\<close>.
\<close>

theorem filter_count:
  "map_of (shape search_id pattern R S) ''filtered_results'' =
     Some (PyInt (int (card {i. i < length R \<and> int_le_float (field_get (fileSize (R ! i)) 0) S}))) \<and>
   (\<forall>t \<in> set R. fileSize t = None \<longrightarrow>
      (t \<in> set (filtered_torrents R S) \<longleftrightarrow> int_le_float 0 S))"
  by (simp add: shape_def filtered_torrents_def length_filter_conv_card field_get_def)

theorem filter_count_witness:
  "row_without_size \<in> set [row_without_size, row (10 * GiB) 50 ''b''] \<and>
   fileSize row_without_size = None \<and>
   int_le_float 0 (max_size_bytes (Finite 5)) \<and>
   row_without_size \<in>
     set (filtered_torrents [row_without_size, row (10 * GiB) 50 ''b''] (max_size_bytes (Finite 5)))"
proof -
  have h1: "row_without_size \<in> set [row_without_size, row (10 * GiB) 50 ''b'']" by simp
  have h2: "fileSize row_without_size = None" by (simp add: row_without_size_def)
  have h3: "int_le_float 0 (max_size_bytes (Finite 5))" by (simp add: five_gib)
  from filter_count[of "PyInt 7" "''ubuntu''" "[row_without_size, row (10 * GiB) 50 ''b'']"
      "max_size_bytes (Finite 5)"]
  have "row_without_size \<in>
     set (filtered_torrents [row_without_size, row (10 * GiB) 50 ''b''] (max_size_bytes (Finite 5)))"
    using h1 h2 h3 by blast
  with h1 h2 h3 show ?thesis by blast
qed

theorem missing_size_rejected_counterexample:
  "fileSize row_without_size = None \<and>
   filtered_torrents [row_without_size] (max_size_bytes (Finite (- 1))) = [] \<and>
   map_of (shape (PyInt 7) ''ubuntu'' [row_without_size] (max_size_bytes (Finite (- 1))))
     ''filtered_results'' = Some (PyInt 0)"
  by (simp add: minus_one_gib shape_def filtered_torrents_def row_without_size_def field_get_def)

text \<open>
  C4 (rank correctness and stability). The \<^verbatim>\<open>results\<close> array of the envelope is sorted
  non-increasing by \<^verbatim>\<open>nbSeeders\<close> (absent: 0), and for every seeder count \<open>k\<close> the rows of the
  array with that count are, in the same order, the first such rows of the filtered input.
\<close>

theorem rank_stable:
  "\<exists>shown. map_of (shape search_id pattern R S) ''results'' = Some (PyTorrents shown) \<and>
     sorted_wrt (\<lambda>x y. field_get (nbSeeders y) 0 \<le> field_get (nbSeeders x) 0) shown \<and>
     (\<forall>k. prefix (filter (\<lambda>x. field_get (nbSeeders x) 0 = k) shown)
            (filter (\<lambda>x. field_get (nbSeeders x) 0 = k) (filtered_torrents R S)))"
  by (simp add: shape_def top_10_desc top_10_stable)

theorem rank_stable_witness:
  "map_of (shape (PyInt 7) ''ubuntu'' [row GiB 5 ''a'', row GiB 9 ''b'', row GiB 5 ''c'']
       (max_size_bytes (Finite 5))) ''results'' =
     Some (PyTorrents [row GiB 9 ''b'', row GiB 5 ''a'', row GiB 5 ''c'']) \<and>
   sorted_wrt (\<lambda>x y. field_get (nbSeeders y) 0 \<le> field_get (nbSeeders x) 0)
     [row GiB 9 ''b'', row GiB 5 ''a'', row GiB 5 ''c''] \<and>
   prefix (filter (\<lambda>x. field_get (nbSeeders x) 0 = 5)
             [row GiB 9 ''b'', row GiB 5 ''a'', row GiB 5 ''c''])
     (filter (\<lambda>x. field_get (nbSeeders x) 0 = 5)
        (filtered_torrents [row GiB 5 ''a'', row GiB 9 ''b'', row GiB 5 ''c'']
           (max_size_bytes (Finite 5))))"
proof -
  have run: "map_of (shape (PyInt 7) ''ubuntu'' [row GiB 5 ''a'', row GiB 9 ''b'', row GiB 5 ''c'']
       (max_size_bytes (Finite 5))) ''results'' =
     Some (PyTorrents [row GiB 9 ''b'', row GiB 5 ''a'', row GiB 5 ''c''])"
    by (simp add: five_gib shape_def filtered_torrents_def sorted_torrents_def top_10_def
        row_def GiB_def field_get_def)
  from rank_stable[of "PyInt 7" "''ubuntu''" "[row GiB 5 ''a'', row GiB 9 ''b'', row GiB 5 ''c'']"
      "max_size_bytes (Finite 5)"] run
  show ?thesis by auto
qed

text \<open>
  C5 (envelope invariant). Whatever the rows and the size limit, the envelope built by the
  last step satisfies the invariant, and so does every dictionary without an \<^verbatim>\<open>error\<close> key
  that \<^verbatim>\<open>search_torrents_api\<close> returns: the filtered count is at most the total count, the
  \<^verbatim>\<open>results\<close> array has at most min(filtered count, 10) rows, hence never more than ten, and
  it is sorted non-increasing by \<^verbatim>\<open>nbSeeders\<close>.
\<close>

theorem envelope_invariant_holds:
  "envelope_invariant (shape search_id pattern R S) \<and>
   (search_torrents_api pattern max_size_gb net = (Returned reply, tr) \<longrightarrow>
    map_of reply ''error'' = None \<longrightarrow> envelope_invariant reply)"
proof (intro conjI impI)
  show "envelope_invariant (shape search_id pattern R S)" by (rule shape_invariant)
next
  assume run: "search_torrents_api pattern max_size_gb net = (Returned reply, tr)"
    and ok: "map_of reply ''error'' = None"
  from run ok obtain tr' where "search_try pattern max_size_gb net = (Inr reply, tr')"
    by (auto simp: search_torrents_api_def split: sum.splits if_splits prod.splits)
  from search_try_reply[OF this ok] show "envelope_invariant reply"
    using shape_invariant by auto
qed

theorem envelope_invariant_holds_witness:
  "search_torrents_api ''ubuntu'' (Finite 5) net_stopped_rows =
     (Returned [(''search_id'', PyInt 7), (''pattern'', PyStr ''ubuntu''),
                (''total_results'', PyInt 3), (''filtered_results'', PyInt 2),
                (''results'', PyTorrents [row GiB 5 ''a'', row (2 * GiB) 1 ''c''])],
      [Login_request, Start_request, Results_request 0]) \<and>
   envelope_invariant
     [(''search_id'', PyInt 7), (''pattern'', PyStr ''ubuntu''),
      (''total_results'', PyInt 3), (''filtered_results'', PyInt 2),
      (''results'', PyTorrents [row GiB 5 ''a'', row (2 * GiB) 1 ''c''])]"
proof -
  let ?reply = "[(''search_id'', PyInt 7), (''pattern'', PyStr ''ubuntu''),
      (''total_results'', PyInt 3), (''filtered_results'', PyInt 2),
      (''results'', PyTorrents [row GiB 5 ''a'', row (2 * GiB) 1 ''c''])]"
  have ok: "map_of ?reply ''error'' = None" by simp
  from envelope_invariant_holds[where pattern = "''ubuntu''" and max_size_gb = "Finite 5"
      and net = net_stopped_rows and reply = ?reply
      and tr = "[Login_request, Start_request, Results_request 0]"]
  have "envelope_invariant ?reply" using stopped_rows_run ok by blast
  with stopped_rows_run show ?thesis by blast
qed

text \<open>
  C6 (error-envelope boundary). The claim asks that no exception leaves
  \<^verbatim>\<open>search_torrents_api\<close>, a transport failure of the login request included. The login call
  stands before the \<^verbatim>\<open>try\<close> block and \<^verbatim>\<open>login_to_qbittorrent\<close> has no handler: when the
  server cannot be reached, the exception of the login request leaves the function and no
  dictionary is returned. (Every other exception is caught: \<open>only_login_propagates\<close>.)
\<close>

theorem login_transport_error_propagates:
  "search_torrents_api ''ubuntu'' (Finite 5) net_unreachable =
     (Propagates ''All connection attempts failed'', [Login_request])"
  by (simp add: search_torrents_api_def login_to_qbittorrent_def net_unreachable_def)

text \<open>
  C7 (poll failure), as amended. Whenever a poll request that the run issues is answered with
  a status other than 200 (so with any non-2xx status), the run ends with that request, no
  further poll follows, and the dictionary returned has the two entries \<^verbatim>\<open>error\<close> (the
  poll-failure message with the status code) and \<^verbatim>\<open>response\<close> (the response text). It carries
  neither the job identifier nor the status seen last, as the counterexample shows.
\<close>

theorem poll_failure_aborts:
  assumes "search_torrents_api pattern max_size_gb net = (r, tr)"
    and "Results_request a \<in> set tr"
    and "results_post net a = Post_response code txt body"
    and "code \<noteq> 200"
  shows "r = Returned [(''error'', PyStr (msg_poll_failed @ str_int code)),
                       (''response'', PyStr txt)] \<and>
         last tr = Results_request a"
proof -
  let ?loop = "poll_loop (results_post net) [0..<SEARCH_MAX_RETRIES] [] PyNone [Start_request]"
  have tr: "tr = snd (search_torrents_api pattern max_size_gb net)" using assms(1) by simp
  have "tr = Login_request # snd (search_try pattern max_size_gb net)"
    using api_trace[of pattern max_size_gb net] assms(2) unfolding tr by auto
  moreover have "snd (search_try pattern max_size_gb net) = loop_trace ?loop"
    using search_try_trace[of pattern max_size_gb net] assms(2) calculation by auto
  ultimately have "Results_request a \<in> set (loop_trace ?loop)" using assms(2) by auto
  from poll_failure_loop[OF this _ assms(3,4)] obtain tr' where
    loop: "?loop = Loop_return [(''error'', PyStr (msg_poll_failed @ str_int code)),
                       (''response'', PyStr txt)] (tr' @ [Results_request a])"
    by auto
  show ?thesis
    using assms(1,2) loop
    by (auto simp: search_torrents_api_def search_try_def Let_def
        split: sum.splits prod.splits if_splits http.splits)
qed

theorem poll_failure_aborts_witness:
  "search_torrents_api ''ubuntu'' (Finite 5) net_poll_500 =
     (Returned [(''error'', PyStr (msg_poll_failed @ ''500'')),
                (''response'', PyStr ''Internal Server Error'')],
      [Login_request, Start_request, Results_request 0, Sleep, Results_request 1]) \<and>
   Results_request 1 \<in>
     set [Login_request, Start_request, Results_request 0, Sleep, Results_request 1] \<and>
   results_post net_poll_500 1 = Post_response 500 ''Internal Server Error'' (Inl ''no JSON'') \<and>
   (500 :: int) \<noteq> 200 \<and>
   last [Login_request, Start_request, Results_request 0, Sleep, Results_request 1] =
     Results_request 1"
proof -
  have h2: "Results_request 1 \<in>
     set [Login_request, Start_request, Results_request 0, Sleep, Results_request 1]" by simp
  have h3: "results_post net_poll_500 1 =
     Post_response 500 ''Internal Server Error'' (Inl ''no JSON'')"
    by (simp add: net_poll_500_def server_def)
  have h4: "(500 :: int) \<noteq> 200" by simp
  from poll_failure_aborts[OF poll_500_run h2 h3 h4] poll_500_run h2 h3
  show ?thesis by simp
qed

theorem poll_failure_without_job_id_counterexample:
  "fst (search_torrents_api ''ubuntu'' (Finite 5) net_poll_500) =
     Returned [(''error'', PyStr (msg_poll_failed @ ''500'')),
               (''response'', PyStr ''Internal Server Error'')] \<and>
   map_of [(''error'', PyStr (msg_poll_failed @ ''500'')),
           (''response'', PyStr ''Internal Server Error'')] ''search_id'' = None \<and>
   map_of [(''error'', PyStr (msg_poll_failed @ ''500'')),
           (''response'', PyStr ''Internal Server Error'')] ''status'' = None"
  by (simp add: poll_500_run)

text \<open>
  C8 (immediate stop). When the login and the search start succeed and the first poll
  answers 200 with status \<^verbatim>\<open>Stopped\<close> and no rows, the run issues that one poll request and
  returns the result envelope, not an error, with \<^verbatim>\<open>total_results\<close> = 0,
  \<^verbatim>\<open>filtered_results\<close> = 0 and an empty \<^verbatim>\<open>results\<close> array.
\<close>

theorem immediate_stop:
  assumes "login_post net = Login_response 200 jar" and "jar \<noteq> []"
    and "start_post net = Post_response 200 stxt (Inr search_result)"
    and "truthy (dict_get search_result ''id'' PyNone)"
    and "results_post net 0 = Post_response 200 txt (Inr page)"
    and "status page = PyStr ''Stopped''" and "results page = []"
  shows "search_torrents_api pattern max_size_gb net =
           (Returned [(''search_id'', dict_get search_result ''id'' PyNone),
                      (''pattern'', PyStr pattern),
                      (''total_results'', PyInt 0),
                      (''filtered_results'', PyInt 0),
                      (''results'', PyTorrents [])],
            [Login_request, Start_request, Results_request 0])"
  using assms
  by (simp add: search_torrents_api_def search_try_def attempts_list login_to_qbittorrent_def
      shape_def filtered_torrents_def sorted_torrents_def top_10_def)

theorem immediate_stop_witness:
  "search_torrents_api ''ubuntu'' (Finite 5) net_stopped_empty =
     (Returned [(''search_id'', PyInt 7), (''pattern'', PyStr ''ubuntu''),
                (''total_results'', PyInt 0), (''filtered_results'', PyInt 0),
                (''results'', PyTorrents [])],
      [Login_request, Start_request, Results_request 0])"
proof -
  let ?page = "\<lparr>status = PyStr ''Stopped'', results = []\<rparr>"
  have h1: "login_post net_stopped_empty = Login_response 200 [(''SID'', ''abc'')]"
    and h2: "[(''SID'', ''abc'')] \<noteq> []"
    and h3: "start_post net_stopped_empty = Post_response 200 ''id 7'' (Inr [(''id'', PyInt 7)])"
    and h4: "truthy (dict_get [(''id'', PyInt 7)] ''id'' PyNone)"
    and h5: "results_post net_stopped_empty 0 = Post_response 200 ''page'' (Inr ?page)"
    and h6: "status ?page = PyStr ''Stopped''" and h7: "results ?page = []"
    by (simp_all add: net_stopped_empty_def server_def dict_get_def)
  show ?thesis
    using immediate_stop[OF h1 h2 h3 h4 h5 h6 h7, of "''ubuntu''" "Finite 5"]
    by (simp add: dict_get_def)
qed

text \<open>
  C9 (exhaustion with rows is unreachable). If the loop of \<^verbatim>\<open>search_torrents_api\<close> runs
  through all \<^verbatim>\<open>SEARCH_MAX_RETRIES\<close> attempts without a \<^verbatim>\<open>break\<close>, a \<^verbatim>\<open>return\<close> or an
  exception, the rows it holds at the end are none.
\<close>

theorem exhausted_unreachable:
  assumes "poll_loop post [0..<SEARCH_MAX_RETRIES] [] PyNone tr = Loop_end Exhausted torrents st tr'"
  shows "torrents = []"
  using exhausted_empty[OF assms] by (simp add: attempts_list)

theorem exhausted_unreachable_witness:
  "poll_loop (results_post net_running_empty) [0..<SEARCH_MAX_RETRIES] [] PyNone [Start_request] =
     Loop_end Exhausted [] (PyStr ''Running'')
       (Start_request # poll_trace [0..<SEARCH_MAX_RETRIES]) \<and>
   ([] :: torrent list) = []"
proof -
  have run: "poll_loop (results_post net_running_empty) [0..<SEARCH_MAX_RETRIES] [] PyNone
       [Start_request] =
     Loop_end Exhausted [] (PyStr ''Running'')
       (Start_request # poll_trace [0..<SEARCH_MAX_RETRIES])"
    unfolding attempts_list
    by (simp add: net_running_empty_def server_def SEARCH_MAX_RETRIES_def)
  from exhausted_unreachable[OF run] run show ?thesis by simp
qed

text \<open>
  C10 (bounded requests). Every call of \<^verbatim>\<open>search_torrents_api\<close> yields a result and a trace;
  the trace holds at most 12 requests: exactly one login request, at most one search-start
  request and at most \<^verbatim>\<open>SEARCH_MAX_RETRIES\<close> = 10 poll requests. It is the login request alone,
  or the login and the start request followed by the poll requests of attempts \<open>0, ..., n - 1\<close>
  with one delay between each two consecutive polls and none after the last. (The model is a
  total function: the loop recurses on the list of attempts left. Each request is taken to
  return or raise.)
\<close>

theorem bounded_requests:
  "\<exists>r tr. search_torrents_api pattern max_size_gb net = (r, tr) \<and>
     length (filter is_request tr) \<le> 12 \<and>
     length (filter (\<lambda>e. e = Login_request) tr) = 1 \<and>
     length (filter (\<lambda>e. e = Start_request) tr) \<le> 1 \<and>
     length (filter is_poll tr) \<le> SEARCH_MAX_RETRIES \<and>
     (\<exists>n\<le>SEARCH_MAX_RETRIES.
        tr = [Login_request] \<or> tr = Login_request # Start_request # poll_trace [0..<n])"
proof -
  obtain n where n: "n \<le> SEARCH_MAX_RETRIES"
    "snd (search_torrents_api pattern max_size_gb net) = [Login_request] \<or>
     snd (search_torrents_api pattern max_size_gb net) =
       Login_request # Start_request # poll_trace [0..<n]"
    using api_trace_shape by blast
  have ten: "SEARCH_MAX_RETRIES = 10" by (simp add: SEARCH_MAX_RETRIES_def)
  from n have "length (filter is_request (snd (search_torrents_api pattern max_size_gb net))) \<le> 12"
    "length (filter (\<lambda>e. e = Login_request) (snd (search_torrents_api pattern max_size_gb net))) = 1"
    "length (filter (\<lambda>e. e = Start_request) (snd (search_torrents_api pattern max_size_gb net))) \<le> 1"
    "length (filter is_poll (snd (search_torrents_api pattern max_size_gb net))) \<le> SEARCH_MAX_RETRIES"
    using ten by (auto simp: poll_trace_counts)
  with n show ?thesis
    by (intro exI[of _ "fst (search_torrents_api pattern max_size_gb net)"]
        exI[of _ "snd (search_torrents_api pattern max_size_gb net)"]) auto
qed

theorem bounded_requests_witness:
  "\<exists>r tr. search_torrents_api ''ubuntu'' (Finite 5) net_running_empty = (r, tr) \<and>
     length (filter is_request tr) \<le> 12 \<and>
     length (filter (\<lambda>e. e = Login_request) tr) = 1 \<and>
     length (filter (\<lambda>e. e = Start_request) tr) \<le> 1 \<and>
     length (filter is_poll tr) \<le> SEARCH_MAX_RETRIES \<and>
     (\<exists>n\<le>SEARCH_MAX_RETRIES.
        tr = [Login_request] \<or> tr = Login_request # Start_request # poll_trace [0..<n])"
  by (rule bounded_requests)

end
